theory Spec2Isabelle
  imports Complex_Main "HOL-Library.AList"
begin

section \<open>Outcome projection engine of the App component\<close>

text \<open>
  The theory embeds \<open>generateProjectionData\<close> and \<open>runAnalysis\<close> of the App component.
  JavaScript numbers are modelled as \<^typ>\<open>real\<close>: the arithmetic of the metric models is
  read over the mathematical reals, so rounding of IEEE doubles is idealised away. The
  component reads its form state from a closure; here every value read is an argument.
\<close>

subsection \<open>Data model\<close>

text \<open>
  Modelled from the spec: the declarations of \<open>SimulationMode\<close>, \<open>PersonalProfile\<close>,
  \<open>BusinessProfile\<close>, \<open>GovernmentProfile\<close>, \<open>TimelinePoint\<close> and \<open>AnalysisResult\<close>
  live in the module \<open>./types\<close>, which is not among the sources. The field names are the
  ones the component reads and writes; every profile field is a user-entered string.
\<close>

datatype SimulationMode = PERSONAL | STUDENT | BUSINESS | GOVERNMENT

record PersonalProfile =
  fullName :: string
  age :: string
  jobTitle :: string
  monthlyIncome :: string
  savings :: string
  healthStatus :: string
  socialStatus :: string
  lifestyle :: string
  decision :: string

record BusinessProfile =
  companyName :: string
  industry :: string
  capital :: string
  targetMarket :: string
  bizDecision :: string

record GovernmentProfile =
  entityName :: string
  sector :: string
  population :: string
  challenges :: string
  goals :: string
  planningPeriod :: string

text \<open>
  Modelled from the spec: \<open>TimelinePoint\<close>, declared in \<open>./types\<close>. A timeline point
  is an object with the period label and one optional numeric property per metric, under
  the names the generator assigns; a property that was never assigned is \<open>None\<close>.
\<close>

record TimelinePoint =
  period :: string
  health :: "real option"
  wealth :: "real option"
  relationships :: "real option"
  happiness :: "real option"
  revenue :: "real option"
  marketShare :: "real option"
  innovation :: "real option"
  economicGrowth :: "real option"
  publicSatisfaction :: "real option"
  socialStability :: "real option"
  academicFit :: "real option"
  marketDemand :: "real option"
  skillDevelopment :: "real option"
  financialProspects :: "real option"

text \<open>
  Modelled from the spec: the enumeration of risk classifications, which the source has
  no declaration for. The generator takes \<open>string | null\<close>: the baseline \<open>NONE\<close> is
  \<open>null\<close>, every other classification is its tag.
\<close>

datatype RiskClassification = NONE | DANGER | WARNING | NEUTRAL | POSITIVE

fun riskTag :: "RiskClassification \<Rightarrow> string option" where
  "riskTag NONE = None"
| "riskTag DANGER = Some ''DANGER''"
| "riskTag WARNING = Some ''WARNING''"
| "riskTag NEUTRAL = Some ''NEUTRAL''"
| "riskTag POSITIVE = Some ''POSITIVE''"

subsection \<open>Built-ins of the language\<close>

text \<open>
  A string is a list of 8-bit characters, read as code units below 256.

  \<open>parseInt\<close> without a radix: leading white space is skipped (among the code units
  below 256 that is TAB, LF, VT, FF, CR, SP and NBSP), then an optional sign, then an
  optional \<open>0x\<close>/\<open>0X\<close> prefix that selects radix 16, then the longest run of digits of
  the radix. No digit gives \<open>NaN\<close>, which is \<open>None\<close>. The value is the mathematical
  integer, not rounded to a double.
\<close>

definition isWhiteSpace :: "char \<Rightarrow> bool" where
  "isWhiteSpace c \<longleftrightarrow>
     c \<in> set [CHR 0x09, CHR 0x0A, CHR 0x0B, CHR 0x0C, CHR 0x0D, CHR 0x20, CHR 0xA0]"

definition digitValue :: "char \<Rightarrow> nat option" where
  "digitValue c =
     (let n = (of_char c :: nat)
      in if 48 \<le> n \<and> n \<le> 57 then Some (n - 48)
         else if 97 \<le> n \<and> n \<le> 102 then Some (n - 87)
         else if 65 \<le> n \<and> n \<le> 70 then Some (n - 55)
         else None)"

fun radixDigits :: "nat \<Rightarrow> string \<Rightarrow> nat list" where
  "radixDigits R [] = []"
| "radixDigits R (c # cs) =
     (case digitValue c of
        None \<Rightarrow> []
      | Some d \<Rightarrow> if d < R then d # radixDigits R cs else [])"

definition parseInt :: "string \<Rightarrow> int option" where
  "parseInt s =
     (let S = dropWhile isWhiteSpace s;
          sign = (if S \<noteq> [] \<and> hd S = CHR ''-'' then - 1 else 1 :: int);
          S1 = (if S \<noteq> [] \<and> (hd S = CHR ''+'' \<or> hd S = CHR ''-'') then tl S else S);
          hex = (take 2 S1 = ''0x'' \<or> take 2 S1 = ''0X'');
          R = (if hex then 16 else 10 :: nat);
          Z = radixDigits R (if hex then drop 2 S1 else S1)
      in if Z = [] then None
         else Some (sign * int (foldl (\<lambda>a d. a * R + d) 0 Z)))"

text \<open>\<open>x || 0\<close> on a number: \<open>NaN\<close> (and zero) give \<open>0\<close>, any other number itself.\<close>

definition orZero :: "int option \<Rightarrow> int" where
  "orZero x = (case x of None \<Rightarrow> 0 | Some v \<Rightarrow> v)"

text \<open>\<open>x || 0\<close> on an optional property: \<open>undefined\<close> (and zero) give \<open>0\<close>.\<close>

definition propOrZero :: "real option \<Rightarrow> real" where
  "propOrZero x = (case x of None \<Rightarrow> 0 | Some v \<Rightarrow> v)"

text \<open>Truthiness of a \<open>string | null\<close>: \<open>null\<close> and the empty string are falsy.\<close>

definition truthy :: "string option \<Rightarrow> bool" where
  "truthy r = (case r of None \<Rightarrow> False | Some s \<Rightarrow> s \<noteq> [])"

text \<open>The template literal on a year: its decimal digits.\<close>

fun toString :: "nat \<Rightarrow> string" where
  "toString n =
     (if n < 10 then [''0123456789'' ! n]
      else toString (n div 10) @ [''0123456789'' ! (n mod 10)])"

declare toString.simps [simp del]

subsection \<open>Risk factors and the clamp\<close>

definition years :: nat where
  "years = 5"

definition growthFactor :: "string option \<Rightarrow> real" where
  "growthFactor riskLevel =
     (if riskLevel = Some ''DANGER'' then 0.8
      else if riskLevel = Some ''WARNING'' then 0.95
      else if riskLevel = Some ''POSITIVE'' then 1.1
      else 1.0)"

definition decayFactor :: "string option \<Rightarrow> real" where
  "decayFactor riskLevel =
     (if riskLevel = Some ''DANGER'' then 5
      else if riskLevel = Some ''WARNING'' then 2
      else if riskLevel = Some ''POSITIVE'' then - 2
      else 0)"

definition clamp :: "real \<Rightarrow> real" where
  "clamp val = max 0 (min 100 val)"

subsection \<open>The Personal model\<close>

definition incomeScore :: "PersonalProfile \<Rightarrow> real" where
  "incomeScore pp = min 100 (real_of_int (orZero (parseInt (monthlyIncome pp))) / 5000 * 50)"

definition savingsScore :: "PersonalProfile \<Rightarrow> real" where
  "savingsScore pp = min 100 (real_of_int (orZero (parseInt (savings pp))) / 10000 * 30)"

definition healthBase :: "PersonalProfile \<Rightarrow> real" where
  "healthBase pp =
     (let hb = (if healthStatus pp = ''EXCELLENT'' then 95
                else if healthStatus pp = ''GOOD'' then 80 else 60)
      in if lifestyle pp = ''STRESSED'' then hb - 10 else hb)"

definition wealthBase :: "PersonalProfile \<Rightarrow> real" where
  "wealthBase pp = (incomeScore pp + savingsScore pp) / 2"

definition yearEffect :: "string option \<Rightarrow> nat \<Rightarrow> real" where
  "yearEffect riskLevel i = real i * (if truthy riskLevel then decayFactor riskLevel else 0)"

definition wealthEffect :: "string option \<Rightarrow> nat \<Rightarrow> real" where
  "wealthEffect riskLevel i =
     real i * (if riskLevel = Some ''DANGER'' then - 10
               else if riskLevel = Some ''POSITIVE'' then 10 else 5)"

definition riskEffect :: "string option \<Rightarrow> real" where
  "riskEffect riskLevel =
     (if riskLevel = Some ''DANGER'' then - 10
      else if riskLevel = Some ''POSITIVE'' then 10 else 0)"

subsection \<open>The projection generator\<close>

definition newPoint :: "string \<Rightarrow> TimelinePoint" where
  "newPoint yearLabel =
     \<lparr>period = yearLabel, health = None, wealth = None, relationships = None,
      happiness = None, revenue = None, marketShare = None, innovation = None,
      economicGrowth = None, publicSatisfaction = None, socialStability = None,
      academicFit = None, marketDemand = None, skillDevelopment = None,
      financialProspects = None\<rparr>"

text \<open>
  The body of the loop for year offset \<open>i\<close>: the point pushed in that iteration.
  \<open>startYear\<close> is the calendar year read from the clock, \<open>personalProfile\<close> the form state.
\<close>

definition projectionPoint ::
  "nat \<Rightarrow> PersonalProfile \<Rightarrow> SimulationMode \<Rightarrow> string option \<Rightarrow> nat \<Rightarrow> TimelinePoint" where
  "projectionPoint startYear personalProfile currentMode riskLevel i =
     (let yearLabel = toString (startYear + i);
          point = newPoint yearLabel
      in if currentMode = PERSONAL then
           let point = point\<lparr>health :=
                 Some (clamp ((healthBase personalProfile - (real i * 2)) - yearEffect riskLevel i))\<rparr>;
               point = point\<lparr>wealth :=
                 Some (clamp ((wealthBase personalProfile + wealthEffect riskLevel i)
                          * (if riskLevel = Some ''DANGER'' then 0.9 else 1)))\<rparr>;
               point = point\<lparr>relationships := Some (clamp (70 - yearEffect riskLevel i))\<rparr>
           in point\<lparr>happiness :=
                 Some (clamp ((propOrZero (health point) + propOrZero (wealth point)
                          + propOrZero (relationships point)) / 3))\<rparr>
         else if currentMode = BUSINESS then
           let baseGrowth = 50;
               point = point\<lparr>revenue :=
                 Some (clamp (baseGrowth + (real i * 10) + (real i * riskEffect riskLevel)))\<rparr>;
               point = point\<lparr>marketShare := Some (clamp (10 + (real i * 5)))\<rparr>
           in point\<lparr>innovation := Some (clamp (80 - (real i * 2)))\<rparr>
         else if currentMode = GOVERNMENT then
           let point = point\<lparr>economicGrowth := Some (clamp (30 + (real i * 4)))\<rparr>;
               point = point\<lparr>publicSatisfaction := Some (clamp (50 + (sin (real i) * 10)))\<rparr>
           in point\<lparr>socialStability := Some (clamp (60 + (real i * 2)))\<rparr>
         else if currentMode = STUDENT then
           let point = point\<lparr>academicFit := Some (clamp (70 + (real i * 2)))\<rparr>;
               point = point\<lparr>marketDemand := Some (clamp (60 + (real i * 5)))\<rparr>;
               point = point\<lparr>skillDevelopment := Some (clamp (20 + (real i * 15)))\<rparr>
           in point\<lparr>financialProspects :=
                 Some (clamp (propOrZero (marketDemand point) * 0.8
                          + propOrZero (skillDevelopment point) * 0.2))\<rparr>
         else point)"

text \<open>The loop \<open>for (let i = 0; i <= years; i++)\<close>, pushing one point per iteration.\<close>

function projectionLoop ::
  "nat \<Rightarrow> PersonalProfile \<Rightarrow> SimulationMode \<Rightarrow> string option \<Rightarrow> nat \<Rightarrow> TimelinePoint list
    \<Rightarrow> TimelinePoint list" where
  "projectionLoop startYear personalProfile currentMode riskLevel i points =
     (if i \<le> years
      then projectionLoop startYear personalProfile currentMode riskLevel (i + 1)
             (points @ [projectionPoint startYear personalProfile currentMode riskLevel i])
      else points)"
  by pat_completeness auto
termination
  by (relation "measure (\<lambda>(sy, pp, m, r, i, ps). Suc years - i)") auto

declare projectionLoop.simps [simp del]

definition generateProjectionData ::
  "nat \<Rightarrow> PersonalProfile \<Rightarrow> SimulationMode \<Rightarrow> string option \<Rightarrow> TimelinePoint list" where
  "generateProjectionData startYear personalProfile currentMode riskLevel =
     projectionLoop startYear personalProfile currentMode riskLevel 0 []"

text \<open>
  The metrics a point carries, in the order of the properties: the values of the
  properties that were assigned.
\<close>

definition metricValues :: "TimelinePoint \<Rightarrow> real list" where
  "metricValues pt =
     concat (map (\<lambda>v. case v of None \<Rightarrow> [] | Some x \<Rightarrow> [x])
       [health pt, wealth pt, relationships pt, happiness pt,
        revenue pt, marketShare pt, innovation pt,
        economicGrowth pt, publicSatisfaction pt, socialStability pt,
        academicFit pt, marketDemand pt, skillDevelopment pt, financialProspects pt])"

subsection \<open>The form's personal profile\<close>

text \<open>The personal profile the form starts with.\<close>

definition initialPersonalProfile :: PersonalProfile where
  "initialPersonalProfile =
     \<lparr>fullName = '''', age = '''', jobTitle = '''', monthlyIncome = '''', savings = '''',
      healthStatus = ''GOOD'', socialStatus = ''SINGLE'', lifestyle = ''ACTIVE'',
      decision = ''''\<rparr>"

text \<open>The same profile after an income of 5000 and savings of 10000 were entered.\<close>

definition sampleProfile :: PersonalProfile where
  "sampleProfile = initialPersonalProfile\<lparr>monthlyIncome := ''5000'', savings := ''10000''\<rparr>"

subsection \<open>The advisory result\<close>

text \<open>
  Modelled from the spec: \<open>AnalysisResult\<close>, declared in \<open>./types\<close>. The handler reads
  its \<open>riskLevel\<close> only.
\<close>

record Swot =
  strengths :: "string list"
  weaknesses :: "string list"
  opportunities :: "string list"
  threats :: "string list"

record AnalysisResult =
  riskLevel :: string
  swot :: Swot
  prediction :: string
  strategy :: string
  executionSteps :: "string list"

subsection \<open>Component state\<close>

text \<open>
  The state hooks of the component. \<open>subjects\<close> is an object used as a dictionary; it is
  an association list in insertion order.
\<close>

record AppState =
  mode :: SimulationMode
  data :: "TimelinePoint list"
  logs :: "string list"
  analysisResult :: "AnalysisResult option"
  isAnalyzing :: bool
  personalProfile :: PersonalProfile
  studentLevel :: string
  studentStream :: string
  subjects :: "(string \<times> string) list"
  electiveSubject :: string
  hobbies :: string
  bizProfile :: BusinessProfile
  govProfile :: GovernmentProfile

fun modeTag :: "SimulationMode \<Rightarrow> string" where
  "modeTag PERSONAL = ''PERSONAL''"
| "modeTag STUDENT = ''STUDENT''"
| "modeTag BUSINESS = ''BUSINESS''"
| "modeTag GOVERNMENT = ''GOVERNMENT''"

text \<open>
  \<open>addLog\<close>: the new line is put in front and \<open>slice(50)\<close> keeps what follows the first
  fifty lines. \<open>time\<close> is the time of day read from the clock.
\<close>

definition addLog :: "string \<Rightarrow> string \<Rightarrow> AppState \<Rightarrow> AppState" where
  "addLog time msg st = st\<lparr>logs := drop 50 ((''['' @ time @ ''] '' @ msg) # logs st)\<rparr>"

subsection \<open>Serialising the profile\<close>

text \<open>
  \<open>JSON.stringify\<close> on the objects the component serialises: objects whose values are
  strings, and one nested object. A string is quoted with the escapes of JSON.
\<close>

definition quoteChar :: "char \<Rightarrow> string" where
  "quoteChar c =
     (if c = CHR 0x22 then [CHR 0x5C, CHR 0x22]
      else if c = CHR 0x5C then [CHR 0x5C, CHR 0x5C]
      else if c = CHR 0x08 then [CHR 0x5C, CHR ''b'']
      else if c = CHR 0x09 then [CHR 0x5C, CHR ''t'']
      else if c = CHR 0x0A then [CHR 0x5C, CHR ''n'']
      else if c = CHR 0x0C then [CHR 0x5C, CHR ''f'']
      else if c = CHR 0x0D then [CHR 0x5C, CHR ''r'']
      else if (of_char c :: nat) < 32
        then [CHR 0x5C, CHR ''u'', CHR ''0'', CHR ''0'',
              ''0123456789abcdef'' ! ((of_char c :: nat) div 16),
              ''0123456789abcdef'' ! ((of_char c :: nat) mod 16)]
      else [c])"

definition jsonString :: "string \<Rightarrow> string" where
  "jsonString s = [CHR 0x22] @ concat (map quoteChar s) @ [CHR 0x22]"

fun joinComma :: "string list \<Rightarrow> string" where
  "joinComma [] = []"
| "joinComma [x] = x"
| "joinComma (x # y # ys) = x @ '','' @ joinComma (y # ys)"

text \<open>An object given by its properties in order, each value already serialised.\<close>

definition jsonObject :: "(string \<times> string) list \<Rightarrow> string" where
  "jsonObject props =
     ''{'' @ joinComma (map (\<lambda>(k, v). jsonString k @ '':'' @ v) props) @ ''}''"

definition stringifyPersonal :: "PersonalProfile \<Rightarrow> string" where
  "stringifyPersonal p =
     jsonObject
       [(''fullName'', jsonString (fullName p)), (''age'', jsonString (age p)),
        (''jobTitle'', jsonString (jobTitle p)),
        (''monthlyIncome'', jsonString (monthlyIncome p)),
        (''savings'', jsonString (savings p)),
        (''healthStatus'', jsonString (healthStatus p)),
        (''socialStatus'', jsonString (socialStatus p)),
        (''lifestyle'', jsonString (lifestyle p)),
        (''decision'', jsonString (decision p))]"

definition stringifyBusiness :: "BusinessProfile \<Rightarrow> string" where
  "stringifyBusiness p =
     jsonObject
       [(''companyName'', jsonString (companyName p)),
        (''industry'', jsonString (industry p)),
        (''capital'', jsonString (capital p)),
        (''targetMarket'', jsonString (targetMarket p)),
        (''decision'', jsonString (bizDecision p))]"

definition stringifyGovernment :: "GovernmentProfile \<Rightarrow> string" where
  "stringifyGovernment p =
     jsonObject
       [(''entityName'', jsonString (entityName p)),
        (''sector'', jsonString (sector p)),
        (''population'', jsonString (population p)),
        (''challenges'', jsonString (challenges p)),
        (''goals'', jsonString (goals p)),
        (''planningPeriod'', jsonString (planningPeriod p))]"

text \<open>
  The student payload: the grades with the elective entered under its own name, its
  grade being the one on record or \<open>'0'\<close> when there is none or it is empty.
\<close>

definition electiveGrade :: "(string \<times> string) list \<Rightarrow> string \<Rightarrow> string" where
  "electiveGrade subj e =
     (case map_of subj e of None \<Rightarrow> ''0'' | Some g \<Rightarrow> if g = [] then ''0'' else g)"

definition stringifyStudent :: "AppState \<Rightarrow> string" where
  "stringifyStudent st =
     jsonObject
       [(''level'', jsonString (studentLevel st)),
        (''stream'', jsonString (studentStream st)),
        (''subjects'',
           jsonObject (map (\<lambda>(k, v). (k, jsonString v))
             (AList.update (electiveSubject st)
                (electiveGrade (subjects st) (electiveSubject st)) (subjects st)))),
        (''hobbies'', jsonString (hobbies st))]"

definition promptData :: "AppState \<Rightarrow> string" where
  "promptData st =
     (if mode st = PERSONAL then stringifyPersonal (personalProfile st)
      else if mode st = STUDENT then stringifyStudent st
      else if mode st = BUSINESS then stringifyBusiness (bizProfile st)
      else if mode st = GOVERNMENT then stringifyGovernment (govProfile st)
      else [])"

subsection \<open>The analysis handler\<close>

text \<open>
  \<open>runAnalysis\<close> is an asynchronous function with one \<open>await\<close>, on the advisory call.
  \<open>getGeminiResponse\<close> lives in the module \<open>./services/geminiService\<close>, which is not among
  the sources: what the call gives back is an argument. It resolves to a result or to
  \<open>null\<close>, or it rejects and the exception leaves the handler.
\<close>

datatype Advisory = Resolved "AnalysisResult option" | Rejected

text \<open>
  The statements up to the advisory call. \<open>time\<close> and \<open>year\<close> are read from the clock. The
  handler reads \<open>mode\<close> and the profile from the state it was created in.
\<close>

definition runAnalysis_begin :: "string \<Rightarrow> nat \<Rightarrow> AppState \<Rightarrow> AppState" where
  "runAnalysis_begin time year st =
     (let st1 = st\<lparr>isAnalyzing := True\<rparr>;
          st2 = st1\<lparr>analysisResult := None\<rparr>;
          st3 = addLog time (''Generating analysis for '' @ modeTag (mode st) @ ''...'') st2
      in st3\<lparr>data := generateProjectionData year (personalProfile st) (mode st) None\<rparr>)"

text \<open>The last two statements of the handler.\<close>

definition runAnalysis_end :: "string \<Rightarrow> AppState \<Rightarrow> AppState" where
  "runAnalysis_end time st = addLog time ''Analysis complete.'' (st\<lparr>isAnalyzing := False\<rparr>)"

text \<open>
  The statements after the \<open>await\<close>. \<open>st0\<close> is the state the handler was created in,
  \<open>st\<close> the state the setters act on.
\<close>

definition runAnalysis_resume ::
  "AppState \<Rightarrow> Advisory \<Rightarrow> nat \<Rightarrow> string \<Rightarrow> AppState \<Rightarrow> AppState" where
  "runAnalysis_resume st0 outcome year time st =
     (case outcome of
        Rejected \<Rightarrow> st
      | Resolved result \<Rightarrow>
          let st1 = st\<lparr>analysisResult := result\<rparr>;
              st2 = (case result of
                       None \<Rightarrow> st1
                     | Some res \<Rightarrow>
                         st1\<lparr>data := generateProjectionData year (personalProfile st0)
                                      (mode st0) (Some (riskLevel res))\<rparr>)
          in runAnalysis_end time st2)"

text \<open>
  One run of the handler with nothing else scheduled in between: \<open>time1\<close>, \<open>year1\<close> are
  the clock before the call, \<open>year2\<close>, \<open>time2\<close> the clock after it.
\<close>

definition runAnalysis ::
  "string \<Rightarrow> nat \<Rightarrow> Advisory \<Rightarrow> nat \<Rightarrow> string \<Rightarrow> AppState \<Rightarrow> AppState" where
  "runAnalysis time1 year1 outcome year2 time2 st =
     (let st1 = runAnalysis_begin time1 year1 st
      in if promptData st \<noteq> [] then runAnalysis_resume st outcome year2 time2 st1
         else runAnalysis_end time2 st1)"

section \<open>Properties\<close>

subsection \<open>The loop and the points it pushes\<close>

lemma projectionLoop_eq:
  "i \<le> Suc years \<Longrightarrow>
   projectionLoop sy pp m r i ps = ps @ map (projectionPoint sy pp m r) [i..<Suc years]"
proof (induction sy pp m r i ps rule: projectionLoop.induct)
  case (1 sy pp m r i ps)
  show ?case
  proof (cases "i \<le> years")
    case True
    then have "projectionLoop sy pp m r i ps =
        projectionLoop sy pp m r (i + 1) (ps @ [projectionPoint sy pp m r i])"
      by (simp add: projectionLoop.simps [of sy pp m r i ps])
    also have "\<dots> = (ps @ [projectionPoint sy pp m r i])
        @ map (projectionPoint sy pp m r) [i + 1..<Suc years]"
      using True by (intro "1.IH") simp_all
    also have "\<dots> = ps @ map (projectionPoint sy pp m r) [i..<Suc years]"
      using True by (simp add: upt_conv_Cons del: upt_Suc)
    finally show ?thesis .
  next
    case False
    with "1.prems" have "i = Suc years" by simp
    then show ?thesis
      by (simp add: projectionLoop.simps [of sy pp m r "Suc years" ps])
  qed
qed

lemma generateProjectionData_eq:
  "generateProjectionData sy pp m r = map (projectionPoint sy pp m r) [0..<6]"
  by (simp add: generateProjectionData_def projectionLoop_eq years_def)

lemma generateProjectionData_length:
  "length (generateProjectionData sy pp m r) = 6"
  by (simp add: generateProjectionData_eq)

lemma generateProjectionData_nth:
  "i < 6 \<Longrightarrow> generateProjectionData sy pp m r ! i = projectionPoint sy pp m r i"
  by (simp add: generateProjectionData_eq del: upt_Suc)

lemma period_projectionPoint: "period (projectionPoint sy pp m r i) = toString (sy + i)"
  by (cases m) (simp_all add: projectionPoint_def newPoint_def Let_def)

text \<open>The profile enters a point through \<open>healthBase\<close> and \<open>wealthBase\<close> only.\<close>

lemma projectionPoint_cong_profile:
  "healthBase pp = healthBase pp' \<Longrightarrow> wealthBase pp = wealthBase pp' \<Longrightarrow>
   projectionPoint sy pp m r i = projectionPoint sy pp' m r i"
  by (simp add: projectionPoint_def Let_def)

lemma generateProjectionData_cong_profile:
  "healthBase pp = healthBase pp' \<Longrightarrow> wealthBase pp = wealthBase pp' \<Longrightarrow>
   generateProjectionData sy pp m r = generateProjectionData sy pp' m r"
  unfolding generateProjectionData_eq
  by (intro map_cong refl projectionPoint_cong_profile)

subsection \<open>The clamp\<close>

lemma clamp_range: "0 \<le> clamp x \<and> clamp x \<le> 100"
  by (simp add: clamp_def)

lemma clamp_mono: "x \<le> y \<Longrightarrow> clamp x \<le> clamp y"
  by (simp add: clamp_def min_def max_def)

lemma clamp_id: "0 \<le> x \<Longrightarrow> x \<le> 100 \<Longrightarrow> clamp x = x"
  by (simp add: clamp_def)

subsection \<open>The metrics of each domain\<close>

lemma personal_fields:
  "health (projectionPoint sy pp PERSONAL r i) =
     Some (clamp ((healthBase pp - (real i * 2)) - yearEffect r i))"
  "wealth (projectionPoint sy pp PERSONAL r i) =
     Some (clamp ((wealthBase pp + wealthEffect r i) * (if r = Some ''DANGER'' then 0.9 else 1)))"
  "relationships (projectionPoint sy pp PERSONAL r i) = Some (clamp (70 - yearEffect r i))"
  "happiness (projectionPoint sy pp PERSONAL r i) =
     Some (clamp ((clamp ((healthBase pp - (real i * 2)) - yearEffect r i)
        + clamp ((wealthBase pp + wealthEffect r i) * (if r = Some ''DANGER'' then 0.9 else 1))
        + clamp (70 - yearEffect r i)) / 3))"
  by (simp_all add: projectionPoint_def newPoint_def Let_def propOrZero_def)

lemma government_fields:
  "economicGrowth (projectionPoint sy pp GOVERNMENT r i) = Some (clamp (30 + (real i * 4)))"
  "publicSatisfaction (projectionPoint sy pp GOVERNMENT r i)
     = Some (clamp (50 + (sin (real i) * 10)))"
  "socialStability (projectionPoint sy pp GOVERNMENT r i) = Some (clamp (60 + (real i * 2)))"
  by (simp_all add: projectionPoint_def newPoint_def Let_def)

text \<open>Each domain populates its own metrics and no other.\<close>

lemma metricValues_projectionPoint:
  "metricValues (projectionPoint sy pp m r i) =
     (case m of
        PERSONAL \<Rightarrow>
          [clamp ((healthBase pp - (real i * 2)) - yearEffect r i),
           clamp ((wealthBase pp + wealthEffect r i) * (if r = Some ''DANGER'' then 0.9 else 1)),
           clamp (70 - yearEffect r i),
           clamp ((clamp ((healthBase pp - (real i * 2)) - yearEffect r i)
              + clamp ((wealthBase pp + wealthEffect r i)
                  * (if r = Some ''DANGER'' then 0.9 else 1))
              + clamp (70 - yearEffect r i)) / 3)]
      | BUSINESS \<Rightarrow>
          [clamp (50 + (real i * 10) + (real i * riskEffect r)),
           clamp (10 + (real i * 5)), clamp (80 - (real i * 2))]
      | GOVERNMENT \<Rightarrow>
          [clamp (30 + (real i * 4)), clamp (50 + (sin (real i) * 10)),
           clamp (60 + (real i * 2))]
      | STUDENT \<Rightarrow>
          [clamp (70 + (real i * 2)), clamp (60 + (real i * 5)), clamp (20 + (real i * 15)),
           clamp (clamp (60 + (real i * 5)) * 0.8 + clamp (20 + (real i * 15)) * 0.2)])"
  by (cases m)
    (simp_all add: metricValues_def projectionPoint_def newPoint_def Let_def propOrZero_def)

subsection \<open>Parsing and the sample profile\<close>

lemma parseInt_5000: "parseInt ''5000'' = Some 5000"
  by (simp add: parseInt_def isWhiteSpace_def digitValue_def Let_def)

lemma parseInt_10000: "parseInt ''10000'' = Some 10000"
  by (simp add: parseInt_def isWhiteSpace_def digitValue_def Let_def)

lemma parseInt_0: "parseInt ''0'' = Some 0"
  by (simp add: parseInt_def isWhiteSpace_def digitValue_def Let_def)

lemma parseInt_empty: "parseInt [] = None"
  by (simp add: parseInt_def)

lemma parseInt_examples:
  "parseInt ''  42'' = Some 42" "parseInt ''-17'' = Some (- 17)" "parseInt ''12abc'' = Some 12"
  "parseInt ''0x1F'' = Some 31" "parseInt ''abc'' = None" "parseInt ''.5'' = None"
  by (simp_all add: parseInt_def isWhiteSpace_def digitValue_def Let_def)

lemma scenario_bases:
  assumes "monthlyIncome pp = ''5000''" "savings pp = ''10000''"
    "healthStatus pp = ''GOOD''" "lifestyle pp = ''ACTIVE''"
  shows "incomeScore pp = 50" "savingsScore pp = 30" "wealthBase pp = 40" "healthBase pp = 80"
  using assms
  by (simp_all add: incomeScore_def savingsScore_def wealthBase_def healthBase_def
      parseInt_5000 parseInt_10000 orZero_def)

lemma sample_bases:
  "incomeScore sampleProfile = 50" "savingsScore sampleProfile = 30"
  "wealthBase sampleProfile = 40" "healthBase sampleProfile = 80"
  by (rule scenario_bases; simp add: sampleProfile_def initialPersonalProfile_def)+

subsection \<open>A bound on the sine of 2\<close>

lemma sin_coeff_values:
  "sin_coeff 0 = 0" "sin_coeff (Suc 0) = 1" "sin_coeff 2 = 0" "sin_coeff 3 = - 1 / 6"
  "sin_coeff 4 = 0" "sin_coeff 5 = 1 / 120" "sin_coeff 6 = 0" "sin_coeff 7 = - 1 / 5040"
  "sin_coeff 8 = 0" "sin_coeff 9 = 1 / 362880"
  by (simp_all add: sin_coeff_def fact_numeral)

lemma sin_2_bounds: "909 / 1000 < sin (2::real) \<and> sin (2::real) < 910 / 1000"
proof -
  define c :: real where "c = 2 - 8/6 + 32/120 - 128/5040 + 512/362880"
  define e :: real where "e = 1024 / 3628800"
  have "{..<10::nat} = {0, 1, 2, 3, 4, 5, 6, 7, 8, 9}" by auto
  then have s: "(\<Sum>m<10. sin_coeff m * (2::real) ^ m) = c"
    by (simp add: sin_coeff_values c_def)
  have "\<bar>sin (2::real) - (\<Sum>m<10. sin_coeff m * 2 ^ m)\<bar> \<le> inverse (fact 10) * \<bar>2\<bar> ^ 10"
    by (rule Maclaurin_sin_bound)
  also have "inverse (fact 10) * \<bar>2::real\<bar> ^ 10 = e"
    by (simp add: fact_numeral e_def)
  finally have "\<bar>sin (2::real) - c\<bar> \<le> e"
    by (simp only: s)
  then have "c - e \<le> sin 2" "sin 2 \<le> c + e" by linarith+
  moreover have "909 / 1000 < c - e" "c + e < 910 / 1000"
    by (simp_all add: c_def e_def)
  ultimately show ?thesis by linarith
qed

subsection \<open>The handler's effect on the state\<close>

lemma jsonObject_nonempty: "jsonObject props \<noteq> []"
  by (simp add: jsonObject_def)

text \<open>The guard \<open>if (promptData)\<close> holds in every mode: the advisory call is always made.\<close>

lemma promptData_nonempty: "promptData st \<noteq> []"
  by (cases "mode st")
    (simp_all add: promptData_def stringifyPersonal_def stringifyStudent_def
      stringifyBusiness_def stringifyGovernment_def jsonObject_nonempty)

lemma begin_fields:
  "data (runAnalysis_begin t y st) = generateProjectionData y (personalProfile st) (mode st) None"
  "analysisResult (runAnalysis_begin t y st) = None"
  "isAnalyzing (runAnalysis_begin t y st) = True"
  by (simp_all add: runAnalysis_begin_def Let_def addLog_def)

lemma end_fields:
  "data (runAnalysis_end t st) = data st"
  "analysisResult (runAnalysis_end t st) = analysisResult st"
  "isAnalyzing (runAnalysis_end t st) = False"
  by (simp_all add: runAnalysis_end_def addLog_def)

section \<open>The properties of the specification\<close>

text \<open>
  C1. For every domain, every risk level the generator can be given (the five
  classifications among them, \<open>null\<close> for the baseline), every profile and every year
  offset 0..5, every metric of the generated point lies in the closed interval [0, 100].
\<close>

theorem metrics_in_range:
  assumes "i < 6" and "v \<in> set (metricValues (generateProjectionData sy pp m r ! i))"
  shows "0 \<le> v \<and> v \<le> 100"
proof -
  from assms have "v \<in> set (metricValues (projectionPoint sy pp m r i))"
    by (simp add: generateProjectionData_nth)
  then obtain x where "v = clamp x"
    by (cases m) (auto simp: metricValues_projectionPoint)
  then show ?thesis by (simp add: clamp_range)
qed

theorem metrics_in_range_witness:
  "(2::nat) < 6
   \<and> 76 \<in> set (metricValues (generateProjectionData 2026 sampleProfile PERSONAL None ! 2))
   \<and> (0::real) \<le> 76 \<and> (76::real) \<le> 100"
proof -
  have m: "76 \<in> set (metricValues (generateProjectionData 2026 sampleProfile PERSONAL None ! 2))"
    by (simp add: generateProjectionData_nth metricValues_projectionPoint sample_bases
        yearEffect_def truthy_def clamp_def)
  show ?thesis using metrics_in_range [OF _ m] m by simp
qed

text \<open>
  C2. When the advisory call resolves to a result with risk level \<open>R\<close>, the handler leaves
  the projection generated for \<open>R\<close> from the mode and profile of the request, and the
  result is stored. When the call resolves to \<open>null\<close> or rejects, the handler leaves the
  baseline projection and no analysis result is stored.
\<close>

theorem advisory_merge:
  "data (runAnalysis t1 y1 (Resolved (Some res)) y2 t2 st)
     = generateProjectionData y2 (personalProfile st) (mode st) (Some (riskLevel res))
   \<and> analysisResult (runAnalysis t1 y1 (Resolved (Some res)) y2 t2 st) = Some res
   \<and> data (runAnalysis t1 y1 (Resolved None) y2 t2 st)
       = generateProjectionData y1 (personalProfile st) (mode st) (riskTag NONE)
   \<and> analysisResult (runAnalysis t1 y1 (Resolved None) y2 t2 st) = None
   \<and> data (runAnalysis t1 y1 Rejected y2 t2 st)
       = generateProjectionData y1 (personalProfile st) (mode st) (riskTag NONE)
   \<and> analysisResult (runAnalysis t1 y1 Rejected y2 t2 st) = None"
  by (simp add: runAnalysis_def runAnalysis_resume_def promptData_nonempty Let_def
      begin_fields end_fields)

text \<open>
  C3. The state the handler leaves when it suspends on the advisory call, which is the
  state every run resumes from whatever the call gives back, holds the baseline
  projection: the one generated with risk \<open>NONE\<close> from the mode and profile of the request.
\<close>

theorem baseline_first:
  "data (runAnalysis_begin t1 y1 st)
     = generateProjectionData y1 (personalProfile st) (mode st) (riskTag NONE)
   \<and> runAnalysis t1 y1 outcome y2 t2 st
       = runAnalysis_resume st outcome y2 t2 (runAnalysis_begin t1 y1 st)"
  by (simp add: runAnalysis_def promptData_nonempty Let_def begin_fields)

text \<open>
  C4. The Personal scenario: with a monthly income of 5000, savings of 10000, health
  status GOOD and lifestyle ACTIVE, under risk \<open>NONE\<close> the point of year offset 0 has
  income score 50, savings score 30, wealth base 40, health 80, wealth 40, relationships
  70, and happiness \<open>clamp ((80 + 40 + 70) / 3)\<close>, which is 63.3 to one decimal.
\<close>

theorem personal_scenario_year0:
  "(let pp = pp0\<lparr>monthlyIncome := ''5000'', savings := ''10000'',
                  healthStatus := ''GOOD'', lifestyle := ''ACTIVE''\<rparr>;
        pt = generateProjectionData sy pp PERSONAL (riskTag NONE) ! 0
    in incomeScore pp = 50 \<and> savingsScore pp = 30 \<and> wealthBase pp = 40
       \<and> health pt = Some 80 \<and> wealth pt = Some 40 \<and> relationships pt = Some 70
       \<and> happiness pt = Some (clamp ((80 + 40 + 70) / 3))
       \<and> \<bar>clamp ((80 + 40 + 70) / 3) - 63.3\<bar> < 0.05)"
proof -
  define pp where "pp = pp0\<lparr>monthlyIncome := ''5000'', savings := ''10000'',
                  healthStatus := ''GOOD'', lifestyle := ''ACTIVE''\<rparr>"
  have b: "incomeScore pp = 50" "savingsScore pp = 30" "wealthBase pp = 40" "healthBase pp = 80"
    by (rule scenario_bases; simp add: pp_def)+
  have "health (projectionPoint sy pp PERSONAL None 0) = Some 80"
    "wealth (projectionPoint sy pp PERSONAL None 0) = Some 40"
    "relationships (projectionPoint sy pp PERSONAL None 0) = Some 70"
    "happiness (projectionPoint sy pp PERSONAL None 0) = Some (clamp ((80 + 40 + 70) / 3))"
    by (simp_all add: personal_fields b yearEffect_def wealthEffect_def truthy_def clamp_def)
  moreover have "\<bar>clamp ((80 + 40 + 70) / 3) - 63.3\<bar> < 0.05"
    by (simp add: clamp_def)
  ultimately show ?thesis
    using b unfolding Let_def pp_def [symmetric]
    by (simp add: generateProjectionData_nth)
qed

text \<open>
  C5. For every risk classification, every profile and every year offset 0..5, the
  Personal wealth is \<open>clamp ((wealthBase + wealthEffect) * d)\<close> where the damper \<open>d\<close>
  is 0.9 under DANGER and 1 under every other classification. The damper is the growth
  factor of the modulation table for NONE and NEUTRAL and for no other classification.
\<close>

theorem wealth_damper:
  "i < 6 \<Longrightarrow>
     wealth (generateProjectionData sy pp PERSONAL (riskTag R) ! i)
       = Some (clamp ((wealthBase pp + wealthEffect (riskTag R) i)
                 * (if R = DANGER then 0.9 else 1)))
   \<and> (((if R = DANGER then 0.9 else 1) = growthFactor (riskTag R)) = (R = NONE \<or> R = NEUTRAL))"
  by (cases R) (simp_all add: generateProjectionData_nth personal_fields growthFactor_def)

theorem wealth_damper_witness:
  "(0::nat) < 6
   \<and> wealth (generateProjectionData 2026 sampleProfile PERSONAL (riskTag DANGER) ! 0) = Some 36"
  using wealth_damper [of 0 2026 sampleProfile DANGER]
  by (simp add: sample_bases wealthEffect_def clamp_def)

text \<open>
  Under DANGER the wealth of the sample profile at year offset 0 is 36, not the 32 that
  the growth factor 0.8 would give.
\<close>

theorem wealth_damper_counterexample:
  "wealth (generateProjectionData 2026 sampleProfile PERSONAL (riskTag DANGER) ! 0)
     \<noteq> Some (clamp ((wealthBase sampleProfile + wealthEffect (riskTag DANGER) 0)
                * growthFactor (riskTag DANGER)))"
  by (simp add: generateProjectionData_nth personal_fields sample_bases wealthEffect_def
      growthFactor_def clamp_def)

text \<open>
  C6. The Government projection is the same under any two risk classifications. At year
  offset 2 it has economic growth 38, public satisfaction \<open>clamp (50 + 10 * sin 2)\<close>,
  which is 59.1 to one decimal, and social stability 64.
\<close>

theorem government_ignores_risk:
  "generateProjectionData sy pp GOVERNMENT (riskTag R1)
     = generateProjectionData sy pp GOVERNMENT (riskTag R2)
   \<and> economicGrowth (generateProjectionData sy pp GOVERNMENT (riskTag R1) ! 2) = Some 38
   \<and> publicSatisfaction (generateProjectionData sy pp GOVERNMENT (riskTag R1) ! 2)
       = Some (clamp (50 + 10 * sin 2))
   \<and> \<bar>clamp (50 + 10 * sin 2) - 59.1\<bar> < 0.05
   \<and> socialStability (generateProjectionData sy pp GOVERNMENT (riskTag R1) ! 2) = Some 64"
proof -
  have "projectionPoint sy pp GOVERNMENT r1 j = projectionPoint sy pp GOVERNMENT r2 j"
    for r1 r2 j
    by (simp add: projectionPoint_def)
  then have eq: "generateProjectionData sy pp GOVERNMENT (riskTag R1)
     = generateProjectionData sy pp GOVERNMENT (riskTag R2)"
    unfolding generateProjectionData_eq by (intro map_cong refl)
  have c: "clamp (50 + 10 * sin 2) = 50 + 10 * sin 2"
    using sin_2_bounds by (intro clamp_id) linarith+
  have near: "\<bar>clamp (50 + 10 * sin 2) - 59.1\<bar> < 0.05"
    unfolding c using sin_2_bounds by (simp add: abs_less_iff)
  have "economicGrowth (generateProjectionData sy pp GOVERNMENT (riskTag R1) ! 2) = Some 38"
    "socialStability (generateProjectionData sy pp GOVERNMENT (riskTag R1) ! 2) = Some 64"
    "publicSatisfaction (generateProjectionData sy pp GOVERNMENT (riskTag R1) ! 2)
       = Some (clamp (50 + 10 * sin 2))"
    by (simp_all add: generateProjectionData_nth government_fields clamp_def mult.commute)
  with eq near show ?thesis by simp
qed

text \<open>
  C7. For the Personal model and any profile, the health at year offset 5 under DANGER
  is at most the health at year offset 5 under NEUTRAL, which is at most the health at
  year offset 5 under POSITIVE.
\<close>

theorem personal_health_monotone_in_risk:
  "\<exists>hD hN hP.
     health (generateProjectionData sy pp PERSONAL (riskTag DANGER) ! 5) = Some hD
   \<and> health (generateProjectionData sy pp PERSONAL (riskTag NEUTRAL) ! 5) = Some hN
   \<and> health (generateProjectionData sy pp PERSONAL (riskTag POSITIVE) ! 5) = Some hP
   \<and> hD \<le> hN \<and> hN \<le> hP"
proof -
  have "yearEffect (riskTag DANGER) 5 = 25" "yearEffect (riskTag NEUTRAL) 5 = 0"
    "yearEffect (riskTag POSITIVE) 5 = - 10"
    by (simp_all add: yearEffect_def truthy_def decayFactor_def)
  then show ?thesis
    by (simp add: generateProjectionData_nth personal_fields clamp_mono)
qed

text \<open>
  C8. For every domain, profile and risk level, the projection has exactly 6 points, and
  the period label of point \<open>i\<close>, for \<open>i\<close> in 0..5, is the decimal string of the
  current year plus \<open>i\<close>.
\<close>

theorem projection_shape:
  "i < 6 \<Longrightarrow>
     length (generateProjectionData sy pp m r) = 6
   \<and> period (generateProjectionData sy pp m r ! i) = toString (sy + i)"
  by (simp add: generateProjectionData_length generateProjectionData_nth period_projectionPoint)

theorem projection_shape_witness:
  "(3::nat) < 6
   \<and> length (generateProjectionData 2026 sampleProfile STUDENT (riskTag WARNING)) = 6
   \<and> period (generateProjectionData 2026 sampleProfile STUDENT (riskTag WARNING) ! 3) = ''2029''"
proof -
  have "toString (2026 + 3) = ''2029''" by code_simp
  then show ?thesis
    using projection_shape [of 3 2026 sampleProfile STUDENT "riskTag WARNING"] by simp
qed

text \<open>
  C9. When no integer can be parsed from the monthly income (resp. the savings), the
  empty string included, the income score (resp. the savings score) is 0 and the
  projection is the one of the profile with \<open>0\<close> entered in that field; the generator
  returns its six points all the same.
\<close>

theorem unparseable_defaults_to_zero:
  "(parseInt (monthlyIncome pp) = None \<longrightarrow>
      incomeScore pp = 0
      \<and> generateProjectionData sy pp m r
          = generateProjectionData sy (pp\<lparr>monthlyIncome := ''0''\<rparr>) m r)
   \<and> (parseInt (savings pp) = None \<longrightarrow>
      savingsScore pp = 0
      \<and> generateProjectionData sy pp m r
          = generateProjectionData sy (pp\<lparr>savings := ''0''\<rparr>) m r)
   \<and> parseInt [] = None
   \<and> length (generateProjectionData sy pp m r) = 6"
proof -
  have i: "incomeScore pp = 0 \<and> generateProjectionData sy pp m r
      = generateProjectionData sy (pp\<lparr>monthlyIncome := ''0''\<rparr>) m r"
    if "parseInt (monthlyIncome pp) = None"
  proof
    show "incomeScore pp = 0"
      using that by (simp add: incomeScore_def orZero_def)
    show "generateProjectionData sy pp m r
      = generateProjectionData sy (pp\<lparr>monthlyIncome := ''0''\<rparr>) m r"
      using that
      by (intro generateProjectionData_cong_profile)
        (simp_all add: healthBase_def wealthBase_def incomeScore_def savingsScore_def
          orZero_def parseInt_0)
  qed
  have s: "savingsScore pp = 0 \<and> generateProjectionData sy pp m r
      = generateProjectionData sy (pp\<lparr>savings := ''0''\<rparr>) m r"
    if "parseInt (savings pp) = None"
  proof
    show "savingsScore pp = 0"
      using that by (simp add: savingsScore_def orZero_def)
    show "generateProjectionData sy pp m r
      = generateProjectionData sy (pp\<lparr>savings := ''0''\<rparr>) m r"
      using that
      by (intro generateProjectionData_cong_profile)
        (simp_all add: healthBase_def wealthBase_def incomeScore_def savingsScore_def
          orZero_def parseInt_0)
  qed
  show ?thesis
    using i s by (simp add: parseInt_empty generateProjectionData_length)
qed

theorem unparseable_defaults_to_zero_witness:
  "parseInt (monthlyIncome (initialPersonalProfile\<lparr>savings := ''n/a''\<rparr>)) = None
   \<and> parseInt (savings (initialPersonalProfile\<lparr>savings := ''n/a''\<rparr>)) = None
   \<and> incomeScore (initialPersonalProfile\<lparr>savings := ''n/a''\<rparr>) = 0
   \<and> savingsScore (initialPersonalProfile\<lparr>savings := ''n/a''\<rparr>) = 0
   \<and> generateProjectionData 2026 (initialPersonalProfile\<lparr>savings := ''n/a''\<rparr>) PERSONAL None
       = generateProjectionData 2026 (initialPersonalProfile\<lparr>savings := ''0''\<rparr>) PERSONAL None"
proof -
  define P where "P = initialPersonalProfile\<lparr>savings := ''n/a''\<rparr>"
  have "parseInt ''n/a'' = None"
    by (simp add: parseInt_def isWhiteSpace_def digitValue_def Let_def)
  then have m: "parseInt (monthlyIncome P) = None" "parseInt (savings P) = None"
    by (simp_all add: P_def initialPersonalProfile_def parseInt_empty)
  with unparseable_defaults_to_zero [of P 2026 PERSONAL None]
  have "incomeScore P = 0 \<and> savingsScore P = 0
    \<and> generateProjectionData 2026 P PERSONAL None
       = generateProjectionData 2026 (P\<lparr>savings := ''0''\<rparr>) PERSONAL None"
    by blast
  then show ?thesis
    using m unfolding P_def by simp
qed

text \<open>
  C10. The baseline coincides with NEUTRAL: for every domain and profile the projection
  under \<open>NONE\<close> is the projection under NEUTRAL, both with growth factor 1, decay factor
  0, risk effect 0 and a wealth effect of 5 per year.
\<close>

theorem baseline_is_neutral:
  "generateProjectionData sy pp m (riskTag NONE) = generateProjectionData sy pp m (riskTag NEUTRAL)
   \<and> growthFactor (riskTag NONE) = 1 \<and> growthFactor (riskTag NEUTRAL) = 1
   \<and> decayFactor (riskTag NONE) = 0 \<and> decayFactor (riskTag NEUTRAL) = 0
   \<and> riskEffect (riskTag NONE) = 0 \<and> riskEffect (riskTag NEUTRAL) = 0
   \<and> wealthEffect (riskTag NONE) i = real i * 5 \<and> wealthEffect (riskTag NEUTRAL) i = real i * 5"
proof -
  have "projectionPoint sy pp m None j = projectionPoint sy pp m (Some ''NEUTRAL'') j" for j
    by (cases m)
      (simp_all add: projectionPoint_def newPoint_def Let_def yearEffect_def wealthEffect_def
        riskEffect_def truthy_def decayFactor_def)
  then show ?thesis
    by (simp add: generateProjectionData_eq growthFactor_def decayFactor_def riskEffect_def
        wealthEffect_def del: upt_Suc)
qed

end
